theory Spec2Isabelle
  imports Main
begin

section \<open>The C++ binding over panels, menus, forms and soft label keys\<close>

text \<open>
  The development embeds the inline member functions of \<^verbatim>\<open>etip.h\<close>,
  \<^verbatim>\<open>cursesp.h\<close>, \<^verbatim>\<open>cursesm.h\<close>, \<^verbatim>\<open>cursesf.h\<close>,
  \<^verbatim>\<open>cursslk.h\<close> and \<^verbatim>\<open>cursesapp.h\<close>. Objects and opaque library
  handles are addresses; the state of the C library is read through the entry points the
  headers call (\<^verbatim>\<open>::panel_userptr\<close>, \<^verbatim>\<open>::item_count\<close>, ...), which are
  parameters of the model. Every way a member function can end is a value of the type
  \<open>outcome\<close>.
\<close>

subsection \<open>Addresses and the ways a call ends\<close>

text \<open>An address of an object or of a library handle; \<open>0\<close> is the null pointer.\<close>

type_synonym ptr = nat

text \<open>
  \<^verbatim>\<open>class NCursesException\<close> of \<^verbatim>\<open>etip.h\<close>: the two data members of the
  base class.
\<close>

record NCursesException =
  message :: string
  errorno :: int

text \<open>
  The object a \<^verbatim>\<open>new NCursesMenuException (...)\<close> or
  \<^verbatim>\<open>new NCursesFormException (...)\<close> expression creates: its dynamic class,
  the member \<^verbatim>\<open>m\<close> or \<^verbatim>\<open>f\<close>, and the base class part.
\<close>

datatype exception_object =
    Menu_exception ptr NCursesException
  | Form_exception ptr NCursesException

text \<open>
  \<^verbatim>\<open>NCursesMenuException (const NCursesMenu* menu, int err)\<close> and
  \<^verbatim>\<open>explicit NCursesFormException (int err)\<close>.
\<close>

definition NCursesMenuException :: "ptr \<Rightarrow> int \<Rightarrow> exception_object" where
  "NCursesMenuException menu_object err =
     Menu_exception menu_object \<lparr>message = ''menu library error'', errorno = err\<rparr>"

definition NCursesFormException :: "int \<Rightarrow> exception_object" where
  "NCursesFormException err =
     Form_exception 0 \<lparr>message = ''form library error'', errorno = err\<rparr>"

text \<open>The virtual \<^verbatim>\<open>classname()\<close> and the base class subobject.\<close>

fun classname :: "exception_object \<Rightarrow> string" where
  "classname (Menu_exception _ _) = ''NCursesMenu''"
| "classname (Form_exception _ _) = ''NCursesForm''"

fun base_object :: "exception_object \<Rightarrow> NCursesException" where
  "base_object (Menu_exception _ e) = e"
| "base_object (Form_exception _ e) = e"

text \<open>The argument of \<^verbatim>\<open>exit\<close>: \<^verbatim>\<open>EXIT_FAILURE\<close> or the literal \<^verbatim>\<open>0\<close>.\<close>

datatype exit_status = EXIT_FAILURE | EXIT_0

text \<open>
  How a member function ends: it returns a value; a C++ exception of static type
  \<^verbatim>\<open>NCursesException\<close> leaves it (\<^verbatim>\<open>throw *e\<close>); the process ends in
  \<^verbatim>\<open>exit\<close>; control goes to an error handler outside these headers
  (\<^verbatim>\<open>lib_error_handler\<close> with a class name and a message,
  \<^verbatim>\<open>genericerror\<close> with a number and a message), which the model follows no
  further; an \<^verbatim>\<open>assert\<close> fails; an array is read outside its bounds; or the null
  pointer is dereferenced.
\<close>

datatype 'a outcome =
    Returned 'a
  | Thrown NCursesException
  | Exited exit_status
  | Lib_error_handler string string
  | Genericerror int string
  | Aborted
  | Out_of_bounds
  | Null_dereference

text \<open>Sequencing: the rest of a function body runs only when the call before it returned.\<close>

fun and_then :: "'a outcome \<Rightarrow> ('a \<Rightarrow> 'b outcome) \<Rightarrow> 'b outcome" where
  "and_then (Returned x) f = f x"
| "and_then (Thrown e) f = Thrown e"
| "and_then (Exited c) f = Exited c"
| "and_then (Lib_error_handler c t) f = Lib_error_handler c t"
| "and_then (Genericerror n t) f = Genericerror n t"
| "and_then Aborted f = Aborted"
| "and_then Out_of_bounds f = Out_of_bounds"
| "and_then Null_dereference f = Null_dereference"

subsection \<open>\<^verbatim>\<open>THROW\<close> of \<^verbatim>\<open>etip.h\<close>\<close>

text \<open>
  The body of \<^verbatim>\<open>inline void THROW(const NCursesException *e)\<close> is chosen by the
  preprocessor. The branches, in the order of the header:
  \<^item> \<open>GNUG_before_2_8\<close>: \<^verbatim>\<open>__GNUG__\<close> and \<^verbatim>\<open>__EXCEPTIONS\<close> defined,
    \<^verbatim>\<open>(__GNUG__ <= 2) && (__GNUC_MINOR__ < 8)\<close>;
  \<^item> \<open>GNUG_from_7\<close>: the same two defined, \<^verbatim>\<open>__GNUG__ >= 7\<close>;
  \<^item> \<open>GNUG_try_catch\<close>: the same two defined, neither of the above
    (\<^verbatim>\<open>CPP_HAS_TRY_CATCH 1\<close>);
  \<^item> \<open>SUNPRO_before_5\<close>: \<^verbatim>\<open>__SUNPRO_CC\<close> defined,
    \<^verbatim>\<open>__SUNPRO_CC_COMPAT\<close> undefined or below 5;
  \<^item> \<open>SUNPRO_try_catch\<close>: \<^verbatim>\<open>__SUNPRO_CC\<close> defined otherwise
    (\<^verbatim>\<open>CPP_HAS_TRY_CATCH 1\<close>);
  \<^item> \<open>Other_compiler\<close>: the final \<^verbatim>\<open>#else\<close>.
\<close>

datatype build =
    GNUG_before_2_8
  | GNUG_from_7
  | GNUG_try_catch
  | SUNPRO_before_5
  | SUNPRO_try_catch
  | Other_compiler

text \<open>
  \<^verbatim>\<open>THROW\<close> applied to a non-null exception object (every \<^verbatim>\<open>OnError\<close> passes
  the result of \<^verbatim>\<open>new\<close>). What the branches write to \<^verbatim>\<open>cerr\<close> and the call of
  \<^verbatim>\<open>::endwin()\<close> are not part of the outcome.
\<close>

fun THROW :: "build \<Rightarrow> exception_object \<Rightarrow> 'a outcome" where
  "THROW GNUG_before_2_8 e = Lib_error_handler (classname e) (message (base_object e))"
| "THROW GNUG_from_7 e = Exited EXIT_FAILURE"
| "THROW GNUG_try_catch e = Thrown (base_object e)"
| "THROW SUNPRO_before_5 e = Genericerror 1 (message (base_object e))"
| "THROW SUNPRO_try_catch e = Thrown (base_object e)"
| "THROW Other_compiler e = Exited EXIT_0"

text \<open>
  \<^verbatim>\<open>CPP_HAS_TRY_CATCH\<close>: the builds in which \<^verbatim>\<open>THROW\<close> ends in
  \<^verbatim>\<open>throw *e\<close>.
\<close>

fun CPP_HAS_TRY_CATCH :: "build \<Rightarrow> bool" where
  "CPP_HAS_TRY_CATCH GNUG_try_catch = True"
| "CPP_HAS_TRY_CATCH SUNPRO_try_catch = True"
| "CPP_HAS_TRY_CATCH _ = False"

text \<open>
  The error codes of the library's \<^verbatim>\<open>eti.h\<close>, which is not among the headers: the
  three codes the member functions below name are parameters.
\<close>

record eti =
  E_OK :: int
  E_SYSTEM_ERROR :: int
  E_BAD_ARGUMENT :: int

text \<open>
  The \<^verbatim>\<open>assert\<close> macro of the C library's \<^verbatim>\<open>assert.h\<close>, which the headers
  include and do not define. Whether the build defines \<^verbatim>\<open>NDEBUG\<close> is a parameter, as
  the compiler is for \<^verbatim>\<open>THROW\<close>: with \<^verbatim>\<open>NDEBUG\<close> the macro expands to nothing,
  the check is not made and the statement after it runs; without it a check that fails
  ends the process in \<^verbatim>\<open>abort\<close>, which no caller can handle.
\<close>

definition assert :: "bool \<Rightarrow> bool \<Rightarrow> unit outcome" where
  "assert NDEBUG c = (if NDEBUG then Returned () else if c then Returned () else Aborted)"

text \<open>
  Reading element \<open>i\<close> of a C array whose allocated elements are \<open>xs\<close>.
\<close>

definition array_read :: "'a list \<Rightarrow> int \<Rightarrow> 'a outcome" where
  "array_read xs i = (if 0 \<le> i \<and> nat i < length xs then Returned (xs ! nat i) else Out_of_bounds)"

subsection \<open>The user-data hook\<close>

text \<open>
  \<^verbatim>\<open>UserHook\<close>: the structure \<^verbatim>\<open>cursesp.h\<close>, \<^verbatim>\<open>cursesm.h\<close> and
  \<^verbatim>\<open>cursesf.h\<close> each declare with the same three members. The store maps the
  address of a hook to its contents.
\<close>

record UserHook =
  m_user :: ptr
  m_back :: ptr
  m_owner :: ptr

type_synonym hook_store = "ptr \<Rightarrow> UserHook"

text \<open>
  Dereferencing a pointer to a hook, as \<^verbatim>\<open>hook->m_back\<close> does: the hook at the
  address, unless the pointer is null.
\<close>

definition dereference :: "hook_store \<Rightarrow> ptr \<Rightarrow> UserHook outcome" where
  "dereference H hook = (if hook = 0 then Null_dereference else Returned (H hook))"

subsection \<open>\<^verbatim>\<open>NCursesPanel\<close> (\<^verbatim>\<open>cursesp.h\<close>)\<close>

text \<open>
  The object: its own address \<^verbatim>\<open>this\<close> and the member \<^verbatim>\<open>PANEL *p\<close>. The class
  has no other non-static data member of its own.
\<close>

record NCursesPanel =
  this :: ptr
  p :: ptr

text \<open>The panel library as the header reads it: \<^verbatim>\<open>::panel_userptr\<close>.\<close>

record panel_library =
  panel_userptr :: "ptr \<Rightarrow> ptr"

definition UserPointer :: "panel_library \<Rightarrow> 'a NCursesPanel_scheme \<Rightarrow> ptr" where
  "UserPointer L w = panel_userptr L (p w)"

text \<open>
  \<^verbatim>\<open>void set_user(void *user)\<close>: the result is the hook store after the call.
\<close>

definition NCursesPanel_set_user ::
  "panel_library \<Rightarrow> hook_store \<Rightarrow> 'a NCursesPanel_scheme \<Rightarrow> ptr \<Rightarrow> hook_store outcome" where
  "NCursesPanel_set_user L H w user =
     (let uptr = UserPointer L w in
      if uptr \<noteq> 0 \<and> m_back (H uptr) = this w \<and> m_owner (H uptr) = p w
      then Returned (H(uptr := (H uptr)\<lparr>m_user := user\<rparr>))
      else Returned H)"

text \<open>\<^verbatim>\<open>void *get_user()\<close>.\<close>

definition NCursesPanel_get_user ::
  "panel_library \<Rightarrow> hook_store \<Rightarrow> 'a NCursesPanel_scheme \<Rightarrow> ptr outcome" where
  "NCursesPanel_get_user L H w =
     (let uptr = UserPointer L w;
          result = 0;
          result = (if uptr \<noteq> 0 \<and> m_back (H uptr) = this w \<and> m_owner (H uptr) = p w
                    then m_user (H uptr) else result)
      in Returned result)"

text \<open>
  The decoration operations \<^verbatim>\<open>NCursesPanel::frame\<close>,
  \<^verbatim>\<open>NCursesPanel::boldframe\<close> and \<^verbatim>\<open>NCursesPanel::label\<close> are declared in
  \<^verbatim>\<open>cursesp.h\<close> and defined elsewhere: how a call of each ends, on the object at an
  address and with two strings that may be null, is a parameter.
\<close>

record panel_decorations =
  NCursesPanel_frame :: "ptr \<Rightarrow> string option \<Rightarrow> string option \<Rightarrow> unit outcome"
  NCursesPanel_boldframe :: "ptr \<Rightarrow> string option \<Rightarrow> string option \<Rightarrow> unit outcome"
  NCursesPanel_label :: "ptr \<Rightarrow> string option \<Rightarrow> string option \<Rightarrow> unit outcome"

subsection \<open>\<^verbatim>\<open>NCursesMenuItem\<close> and \<^verbatim>\<open>NCursesMenu\<close> (\<^verbatim>\<open>cursesm.h\<close>)\<close>

text \<open>
  The menu library as the header reads it: \<^verbatim>\<open>::menu_userptr\<close>,
  \<^verbatim>\<open>::item_count\<close> and \<^verbatim>\<open>::current_item\<close> of a \<^verbatim>\<open>MENU*\<close>, and
  \<^verbatim>\<open>::item_index\<close> of an \<^verbatim>\<open>ITEM*\<close>.
\<close>

record menu_library =
  menu_userptr :: "ptr \<Rightarrow> ptr"
  item_count :: "ptr \<Rightarrow> int"
  current_item :: "ptr \<Rightarrow> ptr"
  item_index :: "ptr \<Rightarrow> int"

text \<open>
  An item wrapper holds the handle \<^verbatim>\<open>ITEM *item\<close>. Wrapper objects live in a store
  indexed by their addresses; \<^verbatim>\<open>NCursesMenuItem** my_items\<close> is the array of those
  addresses (the empty list for the null pointer).
\<close>

record NCursesMenuItem =
  item :: ptr

type_synonym item_store = "ptr \<Rightarrow> NCursesMenuItem"

record NCursesMenu = NCursesPanel +
  menu :: ptr
  sub :: ptr
  b_sub_owner :: bool
  b_framed :: bool
  b_autoDelete :: bool
  my_items :: "ptr list"

text \<open>
  The 'internal' constructor \<^verbatim>\<open>NCursesMenu(nlines, ncols, begin_y, begin_x)\<close>: the
  member initialisers after the base class \<^verbatim>\<open>NCursesPanel\<close> has been built.
\<close>

definition NCursesMenu_internal :: "NCursesPanel \<Rightarrow> NCursesMenu" where
  "NCursesMenu_internal base =
     \<lparr>this = this base, p = p base, menu = 0, sub = 0, b_sub_owner = False,
      b_framed = False, b_autoDelete = False, my_items = []\<rparr>"

text \<open>\<^verbatim>\<open>int NCursesMenuItem::index() const\<close>.\<close>

definition NCursesMenuItem_index :: "menu_library \<Rightarrow> 'a NCursesMenuItem_scheme \<Rightarrow> int" where
  "NCursesMenuItem_index L w = item_index L (item w)"

text \<open>\<^verbatim>\<open>static NCursesMenu* getHook(const MENU *m)\<close>.\<close>

definition NCursesMenu_getHook ::
  "bool \<Rightarrow> menu_library \<Rightarrow> hook_store \<Rightarrow> ptr \<Rightarrow> ptr outcome" where
  "NCursesMenu_getHook NDEBUG L H m =
     (let hook = menu_userptr L m in
      and_then (assert NDEBUG (hook \<noteq> 0 \<and> m_owner (H hook) = m))
        (\<lambda>_. and_then (dereference H hook) (\<lambda>h. Returned (m_back h))))"

text \<open>\<^verbatim>\<open>NCursesMenu::set_user\<close> and \<^verbatim>\<open>NCursesMenu::get_user\<close>.\<close>

definition NCursesMenu_set_user ::
  "bool \<Rightarrow> menu_library \<Rightarrow> hook_store \<Rightarrow> 'a NCursesMenu_scheme \<Rightarrow> ptr \<Rightarrow> hook_store outcome" where
  "NCursesMenu_set_user NDEBUG L H w user =
     (let uptr = menu_userptr L (menu w) in
      and_then
        (assert NDEBUG (uptr \<noteq> 0 \<and> m_back (H uptr) = this w \<and> m_owner (H uptr) = menu w))
        (\<lambda>_. and_then (dereference H uptr) (\<lambda>h. Returned (H(uptr := h\<lparr>m_user := user\<rparr>)))))"

definition NCursesMenu_get_user ::
  "bool \<Rightarrow> menu_library \<Rightarrow> hook_store \<Rightarrow> 'a NCursesMenu_scheme \<Rightarrow> ptr outcome" where
  "NCursesMenu_get_user NDEBUG L H w =
     (let uptr = menu_userptr L (menu w) in
      and_then
        (assert NDEBUG (uptr \<noteq> 0 \<and> m_back (H uptr) = this w \<and> m_owner (H uptr) = menu w))
        (\<lambda>_. and_then (dereference H uptr) (\<lambda>h. Returned (m_user h))))"

text \<open>\<^verbatim>\<open>void NCursesMenu::OnError (int err) const\<close>.\<close>

definition NCursesMenu_OnError ::
  "build \<Rightarrow> eti \<Rightarrow> 'a NCursesMenu_scheme \<Rightarrow> int \<Rightarrow> unit outcome" where
  "NCursesMenu_OnError b k w err =
     (if err \<noteq> E_OK k then THROW b (NCursesMenuException (this w) err) else Returned ())"



text \<open>
  The decorations \<^verbatim>\<open>NCursesMenu::frame\<close>, \<^verbatim>\<open>NCursesMenu::boldframe\<close> and
  \<^verbatim>\<open>NCursesMenu::label\<close>.
\<close>

definition NCursesMenu_frame ::
  "build \<Rightarrow> eti \<Rightarrow> panel_decorations \<Rightarrow> 'a NCursesMenu_scheme \<Rightarrow> string option \<Rightarrow> string option
     \<Rightarrow> unit outcome" where
  "NCursesMenu_frame b k D w title btitle =
     (if NCursesMenu.b_framed w
      then NCursesPanel_frame D (this w) title btitle
      else NCursesMenu_OnError b k w (E_SYSTEM_ERROR k))"

definition NCursesMenu_boldframe ::
  "build \<Rightarrow> eti \<Rightarrow> panel_decorations \<Rightarrow> 'a NCursesMenu_scheme \<Rightarrow> string option \<Rightarrow> string option
     \<Rightarrow> unit outcome" where
  "NCursesMenu_boldframe b k D w title btitle =
     (if NCursesMenu.b_framed w
      then NCursesPanel_boldframe D (this w) title btitle
      else NCursesMenu_OnError b k w (E_SYSTEM_ERROR k))"

definition NCursesMenu_label ::
  "build \<Rightarrow> eti \<Rightarrow> panel_decorations \<Rightarrow> 'a NCursesMenu_scheme \<Rightarrow> string option \<Rightarrow> string option
     \<Rightarrow> unit outcome" where
  "NCursesMenu_label b k D w topLabel bottomLabel =
     (if NCursesMenu.b_framed w
      then NCursesPanel_label D (this w) topLabel bottomLabel
      else NCursesMenu_OnError b k w (E_SYSTEM_ERROR k))"

text \<open>\<^verbatim>\<open>NCursesMenuItem* NCursesMenu::operator[](int i) const\<close>.\<close>

definition NCursesMenu_operator_index ::
  "build \<Rightarrow> eti \<Rightarrow> menu_library \<Rightarrow> 'a NCursesMenu_scheme \<Rightarrow> int \<Rightarrow> ptr outcome" where
  "NCursesMenu_operator_index b k L w i =
     and_then
       (if i < 0 \<or> i \<ge> item_count L (menu w)
        then NCursesMenu_OnError b k w (E_BAD_ARGUMENT k) else Returned ())
       (\<lambda>_. array_read (my_items w) i)"

subsection \<open>\<^verbatim>\<open>NCursesFormField\<close> and \<^verbatim>\<open>NCursesForm\<close> (\<^verbatim>\<open>cursesf.h\<close>)\<close>

text \<open>
  The form library as the header reads it: \<^verbatim>\<open>::form_userptr\<close>,
  \<^verbatim>\<open>::field_count\<close> and \<^verbatim>\<open>::current_field\<close> of a \<^verbatim>\<open>FORM*\<close>, and
  \<^verbatim>\<open>::field_index\<close> of a \<^verbatim>\<open>FIELD*\<close>.
\<close>

record form_library =
  form_userptr :: "ptr \<Rightarrow> ptr"
  field_count :: "ptr \<Rightarrow> int"
  current_field :: "ptr \<Rightarrow> ptr"
  field_index :: "ptr \<Rightarrow> int"



record NCursesForm = NCursesPanel +
  form :: ptr
  sub :: ptr
  b_sub_owner :: bool
  b_framed :: bool
  b_autoDelete :: bool
  my_fields :: "ptr list"

text \<open>
  The 'internal' constructor \<^verbatim>\<open>NCursesForm(nlines, ncols, begin_y, begin_x)\<close>.
\<close>

definition NCursesForm_internal :: "NCursesPanel \<Rightarrow> NCursesForm" where
  "NCursesForm_internal base =
     \<lparr>this = this base, p = p base, form = 0, sub = 0, b_sub_owner = False,
      b_framed = False, b_autoDelete = False, my_fields = []\<rparr>"


text \<open>\<^verbatim>\<open>static NCursesForm* getHook(const FORM *f)\<close>.\<close>

definition NCursesForm_getHook ::
  "bool \<Rightarrow> form_library \<Rightarrow> hook_store \<Rightarrow> ptr \<Rightarrow> ptr outcome" where
  "NCursesForm_getHook NDEBUG L H f =
     (let hook = form_userptr L f in
      and_then (assert NDEBUG (hook \<noteq> 0 \<and> m_owner (H hook) = f))
        (\<lambda>_. and_then (dereference H hook) (\<lambda>h. Returned (m_back h))))"

text \<open>\<^verbatim>\<open>void NCursesForm::OnError (int err) const\<close>.\<close>

definition NCursesForm_OnError :: "build \<Rightarrow> eti \<Rightarrow> int \<Rightarrow> unit outcome" where
  "NCursesForm_OnError b k err =
     (if err \<noteq> E_OK k then THROW b (NCursesFormException err) else Returned ())"


text \<open>
  The decorations \<^verbatim>\<open>NCursesForm::frame\<close>, \<^verbatim>\<open>NCursesForm::boldframe\<close> and
  \<^verbatim>\<open>NCursesForm::label\<close>.
\<close>

definition NCursesForm_frame ::
  "build \<Rightarrow> eti \<Rightarrow> panel_decorations \<Rightarrow> 'a NCursesForm_scheme \<Rightarrow> string option \<Rightarrow> string option
     \<Rightarrow> unit outcome" where
  "NCursesForm_frame b k D w title btitle =
     (if NCursesForm.b_framed w
      then NCursesPanel_frame D (this w) title btitle
      else NCursesForm_OnError b k (E_SYSTEM_ERROR k))"

definition NCursesForm_boldframe ::
  "build \<Rightarrow> eti \<Rightarrow> panel_decorations \<Rightarrow> 'a NCursesForm_scheme \<Rightarrow> string option \<Rightarrow> string option
     \<Rightarrow> unit outcome" where
  "NCursesForm_boldframe b k D w title btitle =
     (if NCursesForm.b_framed w
      then NCursesPanel_boldframe D (this w) title btitle
      else NCursesForm_OnError b k (E_SYSTEM_ERROR k))"

definition NCursesForm_label ::
  "build \<Rightarrow> eti \<Rightarrow> panel_decorations \<Rightarrow> 'a NCursesForm_scheme \<Rightarrow> string option \<Rightarrow> string option
     \<Rightarrow> unit outcome" where
  "NCursesForm_label b k D w topLabel bottomLabel =
     (if NCursesForm.b_framed w
      then NCursesPanel_label D (this w) topLabel bottomLabel
      else NCursesForm_OnError b k (E_SYSTEM_ERROR k))"

text \<open>\<^verbatim>\<open>NCursesFormField* NCursesForm::operator[](int i) const\<close>.\<close>

definition NCursesForm_operator_index ::
  "build \<Rightarrow> eti \<Rightarrow> form_library \<Rightarrow> 'a NCursesForm_scheme \<Rightarrow> int \<Rightarrow> ptr outcome" where
  "NCursesForm_operator_index b k L w i =
     and_then
       (if i < 0 \<or> i \<ge> field_count L (form w)
        then NCursesForm_OnError b k (E_BAD_ARGUMENT k) else Returned ())
       (\<lambda>_. array_read (my_fields w) i)"

subsection \<open>\<^verbatim>\<open>Soft_Label_Key_Set\<close> (\<^verbatim>\<open>cursslk.h\<close>)\<close>

text \<open>
  The private member functions \<^verbatim>\<open>activate_label(int i, bool bf)\<close> and
  \<^verbatim>\<open>activate_labels(bool bf)\<close> are declared in the header and defined elsewhere:
  what each does to the state \<open>'s\<close> of the key set and the screen, and how it ends, is a
  parameter.
\<close>

record 's slk_primitives =
  activate_label :: "int \<Rightarrow> bool \<Rightarrow> 's \<Rightarrow> 's outcome"
  activate_labels :: "bool \<Rightarrow> 's \<Rightarrow> 's outcome"

text \<open>\<^verbatim>\<open>void show(int i)\<close>, \<^verbatim>\<open>void hide(int i)\<close>, \<^verbatim>\<open>void show()\<close>, \<^verbatim>\<open>void hide()\<close>.\<close>

definition Soft_Label_Key_Set_show_i :: "'s slk_primitives \<Rightarrow> int \<Rightarrow> 's \<Rightarrow> 's outcome" where
  "Soft_Label_Key_Set_show_i P i s =
     and_then (activate_label P i False s) (\<lambda>s1. activate_label P i True s1)"

definition Soft_Label_Key_Set_hide_i :: "'s slk_primitives \<Rightarrow> int \<Rightarrow> 's \<Rightarrow> 's outcome" where
  "Soft_Label_Key_Set_hide_i P i s = activate_label P i False s"

definition Soft_Label_Key_Set_show :: "'s slk_primitives \<Rightarrow> 's \<Rightarrow> 's outcome" where
  "Soft_Label_Key_Set_show P s =
     and_then (activate_labels P False s) (\<lambda>s1. activate_labels P True s1)"

definition Soft_Label_Key_Set_hide :: "'s slk_primitives \<Rightarrow> 's \<Rightarrow> 's outcome" where
  "Soft_Label_Key_Set_hide P s = activate_labels P False s"

text \<open>
  A record of the calls made: \<open>recorded P\<close> behaves as \<open>P\<close> and appends every call of a
  primitive that returned to a list kept beside the state.
\<close>

datatype slk_call = Activate_label int bool | Activate_labels bool

definition recorded :: "'s slk_primitives \<Rightarrow> ('s \<times> slk_call list) slk_primitives" where
  "recorded P =
     \<lparr>activate_label = (\<lambda>i bf (s, calls).
        and_then (activate_label P i bf s) (\<lambda>s1. Returned (s1, calls @ [Activate_label i bf]))),
      activate_labels = (\<lambda>bf (s, calls).
        and_then (activate_labels P bf s) (\<lambda>s1. Returned (s1, calls @ [Activate_labels bf])))\<rparr>"

text \<open>
  \<^verbatim>\<open>Label_Layout\<close> and the three static data members \<^verbatim>\<open>count\<close>,
  \<^verbatim>\<open>format\<close> and \<^verbatim>\<open>num_labels\<close>. The enumerator \<^verbatim>\<open>None\<close> is named
  \<open>None_Layout\<close> here.
\<close>

datatype Label_Layout =
    None_Layout
  | Three_Two_Three
  | Four_Four
  | PC_Style
  | PC_Style_With_Index

record Soft_Label_Key_Set_static =
  count :: int
  format :: Label_Layout
  num_labels :: int

text \<open>
  Modelled from the spec: the constructor
  \<^verbatim>\<open>explicit Soft_Label_Key_Set(Label_Layout fmt)\<close>, which the header declares and does
  not define. The global layout (format and label count) is fixed once, at the construction
  of the first-ever key set, and is immutable thereafter. \<open>labels_of\<close> is the number of
  labels a layout has, which neither the header nor the spec gives. The constructors count
  the new key set in \<^verbatim>\<open>count\<close> ("Number of Key Sets"), so \<open>count = 0\<close> holds exactly
  before the first construction.
\<close>

definition Soft_Label_Key_Set_with_layout ::
  "(Label_Layout \<Rightarrow> int) \<Rightarrow> Label_Layout \<Rightarrow> Soft_Label_Key_Set_static \<Rightarrow> Soft_Label_Key_Set_static" where
  "Soft_Label_Key_Set_with_layout labels_of fmt st =
     (if count st = 0
      then st\<lparr>count := 1, format := fmt, num_labels := labels_of fmt\<rparr>
      else st\<lparr>count := count st + 1\<rparr>)"

text \<open>
  Modelled from the spec: the constructor \<^verbatim>\<open>Soft_Label_Key_Set()\<close>, which the header
  declares and does not define. A key set constructed without a layout reuses the layout
  fixed by the first one.
\<close>

definition Soft_Label_Key_Set_default :: "Soft_Label_Key_Set_static \<Rightarrow> Soft_Label_Key_Set_static" where
  "Soft_Label_Key_Set_default st = st\<lparr>count := count st + 1\<rparr>"

text \<open>A construction of either kind, and a sequence of constructions in program order.\<close>

datatype construction = With_layout Label_Layout | Default_layout

fun construct :: "(Label_Layout \<Rightarrow> int) \<Rightarrow> construction \<Rightarrow> Soft_Label_Key_Set_static \<Rightarrow> Soft_Label_Key_Set_static" where
  "construct labels_of (With_layout fmt) st = Soft_Label_Key_Set_with_layout labels_of fmt st"
| "construct labels_of Default_layout st = Soft_Label_Key_Set_default st"

fun constructions :: "(Label_Layout \<Rightarrow> int) \<Rightarrow> construction list \<Rightarrow> Soft_Label_Key_Set_static \<Rightarrow> Soft_Label_Key_Set_static" where
  "constructions labels_of [] st = st"
| "constructions labels_of (c # cs) st = constructions labels_of cs (construct labels_of c st)"

text \<open>The static members before any key set exists.\<close>

definition no_key_sets :: "Soft_Label_Key_Set_static" where
  "no_key_sets = \<lparr>count = 0, format = None_Layout, num_labels = 0\<rparr>"

subsection \<open>The stack of key sets of \<^verbatim>\<open>NCursesApplication\<close> (\<^verbatim>\<open>cursesapp.h\<close>)\<close>

text \<open>
  \<^verbatim>\<open>SLK_Link\<close>: a node holds the pointer \<^verbatim>\<open>prev\<close> to the node below it (null at
  the bottom) and the key set \<^verbatim>\<open>SLKs\<close>. The static member \<^verbatim>\<open>slk_stack\<close> points
  to the topmost node, or is null.
\<close>

datatype SLK_Link = SLK_Link (prev: "SLK_Link option") (SLKs: ptr)

record NCursesApplication_static =
  slk_stack :: "SLK_Link option"

text \<open>
  Modelled from the spec: \<^verbatim>\<open>void push(Soft_Label_Key_Set& S)\<close>, which the header
  declares and does not define. It makes \<open>S\<close> the current key set and records the
  previously current one as its predecessor.
\<close>

definition NCursesApplication_push :: "ptr \<Rightarrow> NCursesApplication_static \<Rightarrow> NCursesApplication_static" where
  "NCursesApplication_push S st = st\<lparr>slk_stack := Some (SLK_Link (slk_stack st) S)\<rparr>"

text \<open>
  Modelled from the spec: \<^verbatim>\<open>bool pop()\<close>, which the header declares and does not
  define. It discards the current key set and restores its predecessor as current, and
  returns false if the stack is empty.
\<close>

definition NCursesApplication_pop :: "NCursesApplication_static \<Rightarrow> bool \<times> NCursesApplication_static" where
  "NCursesApplication_pop st =
     (case slk_stack st of
        None \<Rightarrow> (False, st)
      | Some L \<Rightarrow> (True, st\<lparr>slk_stack := prev L\<rparr>))"

text \<open>
  Modelled from the spec: \<^verbatim>\<open>Soft_Label_Key_Set* top() const\<close>, which the header
  declares and does not define. It is the current key set, the null pointer when there is
  none.
\<close>

definition NCursesApplication_top :: "NCursesApplication_static \<Rightarrow> ptr" where
  "NCursesApplication_top st = (case slk_stack st of None \<Rightarrow> 0 | Some L \<Rightarrow> SLKs L)"

text \<open>Pushing a list of key sets in order, and popping \<open>n\<close> times.\<close>

fun push_all :: "ptr list \<Rightarrow> NCursesApplication_static \<Rightarrow> NCursesApplication_static" where
  "push_all [] st = st"
| "push_all (S # Ss) st = push_all Ss (NCursesApplication_push S st)"

fun pop_times :: "nat \<Rightarrow> NCursesApplication_static \<Rightarrow> NCursesApplication_static" where
  "pop_times 0 st = st"
| "pop_times (Suc n) st = pop_times n (snd (NCursesApplication_pop st))"

subsection \<open>The run loops \<^verbatim>\<open>NCursesMenu::operator()\<close> and \<^verbatim>\<open>NCursesForm::operator()\<close>\<close>








subsection \<open>Attaching a child collection\<close>










subsection \<open>Concrete objects for the worked examples\<close>

text \<open>
  Three different values for the three codes, and base decorations that return.
\<close>

definition example_eti :: eti where
  "example_eti = \<lparr>E_OK = 0, E_SYSTEM_ERROR = - 1, E_BAD_ARGUMENT = - 2\<rparr>"

definition example_decorations :: panel_decorations where
  "example_decorations =
     \<lparr>NCursesPanel_frame = (\<lambda>w t b. Returned ()),
      NCursesPanel_boldframe = (\<lambda>w t b. Returned ()),
      NCursesPanel_label = (\<lambda>w t b. Returned ())\<rparr>"

text \<open>
  One hook at address 5, written for the wrapper at address 1 and the handle 7; the
  handle 7 carries it in its user-data slot, every other handle carries the null pointer.
\<close>

definition example_hooks :: hook_store where
  "example_hooks =
     (\<lambda>a. \<lparr>m_user = 0, m_back = 0, m_owner = 0\<rparr>)(5 := \<lparr>m_user = 9, m_back = 1, m_owner = 7\<rparr>)"

definition example_panel_library :: panel_library where
  "example_panel_library = \<lparr>panel_userptr = (\<lambda>h. if h = 7 then 5 else 0)\<rparr>"

text \<open>
  A menu and a form with the handle 7 and three children: the wrappers at the addresses 10,
  11 and 12 own the handles 110, 111 and 112, the wrapper at 13 is the delimiter with the
  null handle. The library reports three children, the index of each handle, and the handle
  111 as the current one.
\<close>

definition example_menu_library :: menu_library where
  "example_menu_library =
     \<lparr>menu_userptr = (\<lambda>m. if m = 7 then 5 else 0),
      item_count = (\<lambda>m. if m = 7 then 3 else - 1),
      current_item = (\<lambda>m. if m = 7 then 111 else 0),
      item_index = (\<lambda>h. if 110 \<le> h \<and> h < 113 then int h - 110 else - 1)\<rparr>"

definition example_items :: item_store where
  "example_items = (\<lambda>a. \<lparr>item = (if 10 \<le> a \<and> a < 13 then a + 100 else 0)\<rparr>)"

definition example_menu :: NCursesMenu where
  "example_menu =
     (NCursesMenu_internal \<lparr>this = 1, p = 2\<rparr>)\<lparr>menu := 7, my_items := [10, 11, 12, 13]\<rparr>"

definition example_form_library :: form_library where
  "example_form_library =
     \<lparr>form_userptr = (\<lambda>f. if f = 7 then 5 else 0),
      field_count = (\<lambda>f. if f = 7 then 3 else - 1),
      current_field = (\<lambda>f. if f = 7 then 111 else 0),
      field_index = (\<lambda>h. if 110 \<le> h \<and> h < 113 then int h - 110 else - 1)\<rparr>"


definition example_form :: NCursesForm where
  "example_form =
     (NCursesForm_internal \<lparr>this = 1, p = 2\<rparr>)\<lparr>form := 7, my_fields := [10, 11, 12, 13]\<rparr>"

text \<open>
  Primitives of a key set with the labels 1 to 8, for the examples: the state is the list
  of the labels shown; a label number outside 1 to 8 is refused with an exception.
\<close>

definition example_primitives :: "int list slk_primitives" where
  "example_primitives =
     \<lparr>activate_label = (\<lambda>i bf s.
        if 1 \<le> i \<and> i \<le> 8
        then Returned (if bf then i # removeAll i s else removeAll i s)
        else Thrown \<lparr>message = ''no such label'', errorno = - 1\<rparr>),
      activate_labels = (\<lambda>bf s. Returned (if bf then [1, 2, 3, 4, 5, 6, 7, 8] else []))\<rparr>"






section \<open>Properties\<close>

subsection \<open>Helper facts\<close>

lemma and_then_assert:
  "and_then (assert NDEBUG c) f = (if NDEBUG \<or> c then f () else Aborted)"
  by (simp add: assert_def)

lemma THROW_try_catch: "CPP_HAS_TRY_CATCH b \<Longrightarrow> THROW b e = Thrown (base_object e)"
  by (cases b) simp_all

lemma and_then_THROW: "and_then (THROW b e) f = THROW b e"
  by (cases b) simp_all

lemma NCursesMenu_OnError_raises:
  "err \<noteq> E_OK k \<Longrightarrow> NCursesMenu_OnError b k w err = THROW b (NCursesMenuException (this w) err)"
  by (simp add: NCursesMenu_OnError_def)

lemma NCursesForm_OnError_raises:
  "err \<noteq> E_OK k \<Longrightarrow> NCursesForm_OnError b k err = THROW b (NCursesFormException err)"
  by (simp add: NCursesForm_OnError_def)

subsection \<open>The user pointer of a panel\<close>



subsection \<open>Resolving a handle to its wrapper\<close>

text \<open>
  In a build that defines \<^verbatim>\<open>NDEBUG\<close>, \<^verbatim>\<open>getHook\<close> on a handle whose hook names
  another owner makes no check and returns the back-reference of that hook.
\<close>

theorem getHook_NDEBUG_counterexample:
  "NCursesMenu_getHook True example_menu_library
     (example_hooks(5 := \<lparr>m_user = 9, m_back = 1, m_owner = 6\<rparr>)) 7 = Returned 1"
  by (simp add: NCursesMenu_getHook_def and_then_assert dereference_def example_menu_library_def)

text \<open>
  C2 (amended). \<^verbatim>\<open>NCursesMenu::getHook\<close> and \<^verbatim>\<open>NCursesForm::getHook\<close>, in a build
  that does not define \<^verbatim>\<open>NDEBUG\<close>: when the hook read from the user-data slot of the
  handle is the null pointer, or its owner field is not the handle, the call ends in the
  failed assertion; it neither returns a wrapper nor throws. In every build, when the hook
  is there and its owner is the handle, the call returns the back-reference of the hook.
  In a build that defines \<^verbatim>\<open>NDEBUG\<close> the check is not made: the call returns the
  back-reference of whatever hook the slot points to, and dereferences the null pointer
  when the slot holds none.
\<close>

theorem getHook_asserts_owner:
  "(\<not> NDEBUG \<and> (menu_userptr L m = 0 \<or> m_owner (H (menu_userptr L m)) \<noteq> m)
      \<longrightarrow> NCursesMenu_getHook NDEBUG L H m = Aborted)
   \<and> (menu_userptr L m \<noteq> 0 \<and> m_owner (H (menu_userptr L m)) = m
      \<longrightarrow> NCursesMenu_getHook NDEBUG L H m = Returned (m_back (H (menu_userptr L m))))
   \<and> (NDEBUG \<longrightarrow> NCursesMenu_getHook NDEBUG L H m =
        (if menu_userptr L m = 0 then Null_dereference
         else Returned (m_back (H (menu_userptr L m)))))
   \<and> (\<not> NDEBUG \<and> (form_userptr L' f = 0 \<or> m_owner (H (form_userptr L' f)) \<noteq> f)
      \<longrightarrow> NCursesForm_getHook NDEBUG L' H f = Aborted)
   \<and> (form_userptr L' f \<noteq> 0 \<and> m_owner (H (form_userptr L' f)) = f
      \<longrightarrow> NCursesForm_getHook NDEBUG L' H f = Returned (m_back (H (form_userptr L' f))))
   \<and> (NDEBUG \<longrightarrow> NCursesForm_getHook NDEBUG L' H f =
        (if form_userptr L' f = 0 then Null_dereference
         else Returned (m_back (H (form_userptr L' f)))))"
proof -
  have menu_case: "NCursesMenu_getHook NDEBUG L H m =
      (if NDEBUG \<or> (menu_userptr L m \<noteq> 0 \<and> m_owner (H (menu_userptr L m)) = m)
       then (if menu_userptr L m = 0 then Null_dereference
             else Returned (m_back (H (menu_userptr L m))))
       else Aborted)"
    by (simp add: NCursesMenu_getHook_def Let_def and_then_assert dereference_def)
  have form_case: "NCursesForm_getHook NDEBUG L' H f =
      (if NDEBUG \<or> (form_userptr L' f \<noteq> 0 \<and> m_owner (H (form_userptr L' f)) = f)
       then (if form_userptr L' f = 0 then Null_dereference
             else Returned (m_back (H (form_userptr L' f))))
       else Aborted)"
    by (simp add: NCursesForm_getHook_def Let_def and_then_assert dereference_def)
  show ?thesis
    unfolding menu_case form_case by auto
qed

text \<open>
  On the example, without \<^verbatim>\<open>NDEBUG\<close>: the handle 7 resolves to the wrapper at address
  1; the handle 8 carries no hook; and once the hook at address 5 names another owner, the
  handle 7 no longer resolves. With \<^verbatim>\<open>NDEBUG\<close> the handle 7 resolves as before.
\<close>

theorem getHook_asserts_owner_witness:
  "NCursesMenu_getHook False example_menu_library example_hooks 7 = Returned 1
   \<and> NCursesMenu_getHook False example_menu_library example_hooks 8 = Aborted
   \<and> NCursesMenu_getHook False example_menu_library
        (example_hooks(5 := \<lparr>m_user = 9, m_back = 1, m_owner = 6\<rparr>)) 7 = Aborted
   \<and> NCursesForm_getHook False example_form_library example_hooks 7 = Returned 1
   \<and> NCursesForm_getHook False example_form_library example_hooks 8 = Aborted
   \<and> NCursesForm_getHook False example_form_library
        (example_hooks(5 := \<lparr>m_user = 9, m_back = 1, m_owner = 6\<rparr>)) 7 = Aborted
   \<and> NCursesMenu_getHook True example_menu_library example_hooks 7 = Returned 1
   \<and> NCursesForm_getHook True example_form_library example_hooks 8 = Null_dereference"
  using getHook_asserts_owner [where NDEBUG = False and L = example_menu_library and m = 7
      and H = example_hooks and L' = example_form_library and f = 7]
    getHook_asserts_owner [where NDEBUG = False and L = example_menu_library and m = 8
      and H = example_hooks and L' = example_form_library and f = 8]
    getHook_asserts_owner [where NDEBUG = False and L = example_menu_library and m = 7
      and H = "example_hooks(5 := \<lparr>m_user = 9, m_back = 1, m_owner = 6\<rparr>)"
      and L' = example_form_library and f = 7]
    getHook_asserts_owner [where NDEBUG = True and L = example_menu_library and m = 7
      and H = example_hooks and L' = example_form_library and f = 8]
  by (simp add: example_menu_library_def example_form_library_def example_hooks_def)

subsection \<open>Decorations of a menu and of a form\<close>

text \<open>
  In a build with g++ 7 or later, \<^verbatim>\<open>frame()\<close> on a menu built by the internal
  constructor, which reserves no frame space, does not throw: \<^verbatim>\<open>THROW\<close> ends the
  process with \<^verbatim>\<open>exit(EXIT_FAILURE)\<close>.
\<close>

theorem unframed_decoration_counterexample:
  "NCursesMenu_frame GNUG_from_7 example_eti example_decorations
     (NCursesMenu_internal \<lparr>this = 1, p = 2\<rparr>) None None = Exited EXIT_FAILURE"
  by (simp add: NCursesMenu_frame_def NCursesMenu_internal_def NCursesMenu_OnError_def
      example_eti_def)

text \<open>
  C1 (amended). For every \<^verbatim>\<open>NCursesMenu\<close> and \<^verbatim>\<open>NCursesForm\<close> whose framed flag
  is false, \<^verbatim>\<open>frame()\<close>, \<^verbatim>\<open>boldframe()\<close> and \<^verbatim>\<open>label()\<close> do not reach the base
  operation: each ends as \<^verbatim>\<open>THROW\<close> ends on a new \<^verbatim>\<open>NCursesMenuException\<close> or
  \<^verbatim>\<open>NCursesFormException\<close> that carries \<^verbatim>\<open>E_SYSTEM_ERROR\<close> (a code that differs
  from \<^verbatim>\<open>E_OK\<close>), and in the builds with \<^verbatim>\<open>CPP_HAS_TRY_CATCH\<close> that is a thrown
  \<^verbatim>\<open>NCursesException\<close> with that error number. When the framed flag is set, each call
  ends as the base operation of \<^verbatim>\<open>NCursesPanel\<close> ends on the same object and
  arguments. \<^verbatim>\<open>NCursesPanel\<close> itself has no framed flag.
\<close>

theorem decoration_guard:
  fixes w :: "'a NCursesMenu_scheme" and v :: "'b NCursesForm_scheme"
  shows
  "(\<not> NCursesMenu.b_framed w \<and> E_SYSTEM_ERROR k \<noteq> E_OK k \<longrightarrow>
      NCursesMenu_frame b k D w t1 t2 = THROW b (NCursesMenuException (this w) (E_SYSTEM_ERROR k))
    \<and> NCursesMenu_boldframe b k D w t1 t2 = THROW b (NCursesMenuException (this w) (E_SYSTEM_ERROR k))
    \<and> NCursesMenu_label b k D w t1 t2 = THROW b (NCursesMenuException (this w) (E_SYSTEM_ERROR k))
    \<and> (CPP_HAS_TRY_CATCH b \<longrightarrow>
         THROW b (NCursesMenuException (this w) (E_SYSTEM_ERROR k)) =
           (Thrown \<lparr>message = ''menu library error'', errorno = E_SYSTEM_ERROR k\<rparr> :: unit outcome)))
   \<and> (\<not> NCursesForm.b_framed v \<and> E_SYSTEM_ERROR k \<noteq> E_OK k \<longrightarrow>
      NCursesForm_frame b k D v t1 t2 = THROW b (NCursesFormException (E_SYSTEM_ERROR k))
    \<and> NCursesForm_boldframe b k D v t1 t2 = THROW b (NCursesFormException (E_SYSTEM_ERROR k))
    \<and> NCursesForm_label b k D v t1 t2 = THROW b (NCursesFormException (E_SYSTEM_ERROR k))
    \<and> (CPP_HAS_TRY_CATCH b \<longrightarrow>
         THROW b (NCursesFormException (E_SYSTEM_ERROR k)) =
           (Thrown \<lparr>message = ''form library error'', errorno = E_SYSTEM_ERROR k\<rparr> :: unit outcome)))
   \<and> (NCursesMenu.b_framed w \<longrightarrow>
      NCursesMenu_frame b k D w t1 t2 = NCursesPanel_frame D (this w) t1 t2
    \<and> NCursesMenu_boldframe b k D w t1 t2 = NCursesPanel_boldframe D (this w) t1 t2
    \<and> NCursesMenu_label b k D w t1 t2 = NCursesPanel_label D (this w) t1 t2)
   \<and> (NCursesForm.b_framed v \<longrightarrow>
      NCursesForm_frame b k D v t1 t2 = NCursesPanel_frame D (this v) t1 t2
    \<and> NCursesForm_boldframe b k D v t1 t2 = NCursesPanel_boldframe D (this v) t1 t2
    \<and> NCursesForm_label b k D v t1 t2 = NCursesPanel_label D (this v) t1 t2)"
  by (simp add: NCursesMenu_frame_def NCursesMenu_boldframe_def NCursesMenu_label_def
      NCursesForm_frame_def NCursesForm_boldframe_def NCursesForm_label_def
      NCursesMenu_OnError_raises NCursesForm_OnError_raises THROW_try_catch
      NCursesMenuException_def NCursesFormException_def)

text \<open>
  On the example: a menu and a form built by the internal constructors in two builds that
  throw, and the same two objects with the framed flag set.
\<close>

theorem decoration_guard_witness:
  "NCursesMenu_frame GNUG_try_catch example_eti example_decorations
     (NCursesMenu_internal \<lparr>this = 1, p = 2\<rparr>) None None
     = Thrown \<lparr>message = ''menu library error'', errorno = - 1\<rparr>
   \<and> NCursesForm_label SUNPRO_try_catch example_eti example_decorations
     (NCursesForm_internal \<lparr>this = 1, p = 2\<rparr>) (Some ''top'') None
     = Thrown \<lparr>message = ''form library error'', errorno = - 1\<rparr>
   \<and> NCursesMenu_boldframe GNUG_from_7 example_eti example_decorations
     ((NCursesMenu_internal \<lparr>this = 1, p = 2\<rparr>)\<lparr>NCursesMenu.b_framed := True\<rparr>) None None
     = NCursesPanel_boldframe example_decorations 1 None None
   \<and> NCursesForm_frame GNUG_from_7 example_eti example_decorations
     ((NCursesForm_internal \<lparr>this = 1, p = 2\<rparr>)\<lparr>NCursesForm.b_framed := True\<rparr>) None None
     = NCursesPanel_frame example_decorations 1 None None"
  using decoration_guard [where w = "NCursesMenu_internal \<lparr>this = 1, p = 2\<rparr>" and k = example_eti
      and b = GNUG_try_catch and D = example_decorations and ?t1.0 = None and ?t2.0 = None
      and v = "NCursesForm_internal \<lparr>this = 1, p = 2\<rparr>"]
    decoration_guard [where w = "NCursesMenu_internal \<lparr>this = 1, p = 2\<rparr>" and k = example_eti
      and b = SUNPRO_try_catch and D = example_decorations and ?t1.0 = "Some ''top''" and ?t2.0 = None
      and v = "NCursesForm_internal \<lparr>this = 1, p = 2\<rparr>"]
    decoration_guard [where w = "(NCursesMenu_internal \<lparr>this = 1, p = 2\<rparr>)\<lparr>NCursesMenu.b_framed := True\<rparr>"
      and k = example_eti and b = GNUG_from_7 and D = example_decorations and ?t1.0 = None and ?t2.0 = None
      and v = "(NCursesForm_internal \<lparr>this = 1, p = 2\<rparr>)\<lparr>NCursesForm.b_framed := True\<rparr>"]
  by (simp add: NCursesMenu_internal_def NCursesForm_internal_def example_eti_def)

subsection \<open>Indexing the children\<close>

text \<open>
  In a build with g++ 7 or later, \<^verbatim>\<open>operator[]\<close> past the reported count does not throw:
  \<^verbatim>\<open>THROW\<close> ends the process with \<^verbatim>\<open>exit(EXIT_FAILURE)\<close>.
\<close>

theorem operator_index_counterexample:
  "NCursesMenu_operator_index GNUG_from_7 example_eti example_menu_library example_menu 3
     = Exited EXIT_FAILURE"
  by (simp add: NCursesMenu_operator_index_def NCursesMenu_OnError_def example_eti_def
      example_menu_library_def example_menu_def NCursesMenu_internal_def)

text \<open>
  C7 (amended). For every menu or form and every \<open>i\<close> that is negative or not below the
  count the library reports, \<^verbatim>\<open>operator[](i)\<close> calls
  \<^verbatim>\<open>OnError(E_BAD_ARGUMENT)\<close> before it reads the array: it ends as \<^verbatim>\<open>THROW\<close>
  ends on a new exception that carries \<^verbatim>\<open>E_BAD_ARGUMENT\<close> (a code that differs from
  \<^verbatim>\<open>E_OK\<close>), and in the builds with \<^verbatim>\<open>CPP_HAS_TRY_CATCH\<close> that is a thrown
  \<^verbatim>\<open>NCursesException\<close> with that error number, not a failed assertion. For every \<open>i\<close> from 0 and below
  the reported count, and within the wrapper array, it returns element \<open>i\<close> of
  \<^verbatim>\<open>my_items\<close> or \<^verbatim>\<open>my_fields\<close>.
\<close>

theorem operator_index_checked:
  fixes w :: "'a NCursesMenu_scheme" and v :: "'b NCursesForm_scheme"
  shows
  "((i < 0 \<or> item_count L (menu w) \<le> i) \<and> E_BAD_ARGUMENT k \<noteq> E_OK k \<longrightarrow>
      NCursesMenu_operator_index b k L w i = THROW b (NCursesMenuException (this w) (E_BAD_ARGUMENT k))
    \<and> (CPP_HAS_TRY_CATCH b \<longrightarrow> NCursesMenu_operator_index b k L w i =
          Thrown \<lparr>message = ''menu library error'', errorno = E_BAD_ARGUMENT k\<rparr>))
   \<and> (0 \<le> i \<and> i < item_count L (menu w) \<and> nat i < length (my_items w) \<longrightarrow>
      NCursesMenu_operator_index b k L w i = Returned (my_items w ! nat i))
   \<and> ((i < 0 \<or> field_count L' (form v) \<le> i) \<and> E_BAD_ARGUMENT k \<noteq> E_OK k \<longrightarrow>
      NCursesForm_operator_index b k L' v i = THROW b (NCursesFormException (E_BAD_ARGUMENT k))
    \<and> (CPP_HAS_TRY_CATCH b \<longrightarrow> NCursesForm_operator_index b k L' v i =
          Thrown \<lparr>message = ''form library error'', errorno = E_BAD_ARGUMENT k\<rparr>))
   \<and> (0 \<le> i \<and> i < field_count L' (form v) \<and> nat i < length (my_fields v) \<longrightarrow>
      NCursesForm_operator_index b k L' v i = Returned (my_fields v ! nat i))"
  by (auto simp add: NCursesMenu_operator_index_def NCursesForm_operator_index_def
      NCursesMenu_OnError_raises NCursesForm_OnError_raises and_then_THROW THROW_try_catch
      NCursesMenuException_def NCursesFormException_def array_read_def)

text \<open>
  On the example menu and form, which report three children: the indices 3 and -1 in a
  build that throws, the indices 2 and 0 in any build.
\<close>

theorem operator_index_checked_witness:
  "NCursesMenu_operator_index GNUG_try_catch example_eti example_menu_library example_menu 3
     = Thrown \<lparr>message = ''menu library error'', errorno = - 2\<rparr>
   \<and> NCursesMenu_operator_index GNUG_from_7 example_eti example_menu_library example_menu 2
     = Returned 12
   \<and> NCursesForm_operator_index GNUG_try_catch example_eti example_form_library example_form (- 1)
     = Thrown \<lparr>message = ''form library error'', errorno = - 2\<rparr>
   \<and> NCursesForm_operator_index GNUG_from_7 example_eti example_form_library example_form 0
     = Returned 10"
  using operator_index_checked [where i = 3 and L = example_menu_library and w = example_menu
      and k = example_eti and b = GNUG_try_catch and L' = example_form_library and v = example_form]
    operator_index_checked [where i = 2 and L = example_menu_library and w = example_menu
      and k = example_eti and b = GNUG_from_7 and L' = example_form_library and v = example_form]
    operator_index_checked [where i = "- 1" and L = example_menu_library and w = example_menu
      and k = example_eti and b = GNUG_try_catch and L' = example_form_library and v = example_form]
    operator_index_checked [where i = 0 and L = example_menu_library and w = example_menu
      and k = example_eti and b = GNUG_from_7 and L' = example_form_library and v = example_form]
  by (simp add: example_eti_def example_menu_library_def example_menu_def NCursesMenu_internal_def
      example_form_library_def example_form_def NCursesForm_internal_def
      NCursesMenuException_def NCursesFormException_def)

subsection \<open>Attached collections and the current child\<close>


















subsection \<open>Showing and hiding soft label keys\<close>

text \<open>
  C8. With every call of a primitive recorded: \<^verbatim>\<open>show(i)\<close> calls
  \<^verbatim>\<open>activate_label(i, FALSE)\<close> and then \<^verbatim>\<open>activate_label(i, TRUE)\<close> on the state
  the first call left, and when both return exactly these two calls, in this order, have
  been made; \<^verbatim>\<open>hide(i)\<close> makes the one call \<^verbatim>\<open>activate_label(i, FALSE)\<close>.
  \<^verbatim>\<open>show()\<close> calls \<^verbatim>\<open>activate_labels(FALSE)\<close> and then
  \<^verbatim>\<open>activate_labels(TRUE)\<close>, and \<^verbatim>\<open>hide()\<close> makes the one call
  \<^verbatim>\<open>activate_labels(FALSE)\<close>. A call that does not return ends the member function
  there.
\<close>

theorem show_hide_call_sequence:
  "Soft_Label_Key_Set_show_i (recorded P) i (s, calls) =
     and_then (activate_label P i False s) (\<lambda>s1.
       and_then (activate_label P i True s1) (\<lambda>s2.
         Returned (s2, calls @ [Activate_label i False, Activate_label i True])))
   \<and> Soft_Label_Key_Set_hide_i (recorded P) i (s, calls) =
     and_then (activate_label P i False s) (\<lambda>s1.
       Returned (s1, calls @ [Activate_label i False]))
   \<and> Soft_Label_Key_Set_show (recorded P) (s, calls) =
     and_then (activate_labels P False s) (\<lambda>s1.
       and_then (activate_labels P True s1) (\<lambda>s2.
         Returned (s2, calls @ [Activate_labels False, Activate_labels True])))
   \<and> Soft_Label_Key_Set_hide (recorded P) (s, calls) =
     and_then (activate_labels P False s) (\<lambda>s1.
       Returned (s1, calls @ [Activate_labels False]))"
proof (intro conjI)
  show "Soft_Label_Key_Set_show_i (recorded P) i (s, calls) =
     and_then (activate_label P i False s) (\<lambda>s1.
       and_then (activate_label P i True s1) (\<lambda>s2.
         Returned (s2, calls @ [Activate_label i False, Activate_label i True])))"
    by (cases "activate_label P i False s")
      (simp_all add: Soft_Label_Key_Set_show_i_def recorded_def)
  show "Soft_Label_Key_Set_hide_i (recorded P) i (s, calls) =
     and_then (activate_label P i False s) (\<lambda>s1.
       Returned (s1, calls @ [Activate_label i False]))"
    by (simp add: Soft_Label_Key_Set_hide_i_def recorded_def)
  show "Soft_Label_Key_Set_show (recorded P) (s, calls) =
     and_then (activate_labels P False s) (\<lambda>s1.
       and_then (activate_labels P True s1) (\<lambda>s2.
         Returned (s2, calls @ [Activate_labels False, Activate_labels True])))"
    by (cases "activate_labels P False s")
      (simp_all add: Soft_Label_Key_Set_show_def recorded_def)
  show "Soft_Label_Key_Set_hide (recorded P) (s, calls) =
     and_then (activate_labels P False s) (\<lambda>s1.
       Returned (s1, calls @ [Activate_labels False]))"
    by (simp add: Soft_Label_Key_Set_hide_def recorded_def)
qed

text \<open>
  On the example key set: label 3 is shown and hidden, all labels are shown and hidden, and
  showing the label 9, which the example refuses, ends at the first call.
\<close>

theorem show_hide_call_sequence_witness:
  "Soft_Label_Key_Set_show_i (recorded example_primitives) 3 ([], [])
     = Returned ([3], [Activate_label 3 False, Activate_label 3 True])
   \<and> Soft_Label_Key_Set_hide_i (recorded example_primitives) 3 ([3, 5], [])
     = Returned ([5], [Activate_label 3 False])
   \<and> Soft_Label_Key_Set_show (recorded example_primitives) ([3], [])
     = Returned ([1, 2, 3, 4, 5, 6, 7, 8], [Activate_labels False, Activate_labels True])
   \<and> Soft_Label_Key_Set_hide (recorded example_primitives) ([3], [])
     = Returned ([], [Activate_labels False])
   \<and> Soft_Label_Key_Set_show_i (recorded example_primitives) 9 ([], [])
     = Thrown \<lparr>message = ''no such label'', errorno = - 1\<rparr>"
  using show_hide_call_sequence [where P = example_primitives and i = 3 and s = "[]" and calls = "[]"]
    show_hide_call_sequence [where P = example_primitives and i = 3 and s = "[3, 5]" and calls = "[]"]
    show_hide_call_sequence [where P = example_primitives and i = 3 and s = "[3]" and calls = "[]"]
    show_hide_call_sequence [where P = example_primitives and i = 9 and s = "[]" and calls = "[]"]
  by (simp add: example_primitives_def)

subsection \<open>The stack of key sets\<close>

lemma pop_push: "NCursesApplication_pop (NCursesApplication_push S st) = (True, st)"
  by (simp add: NCursesApplication_pop_def NCursesApplication_push_def)

lemma top_push: "NCursesApplication_top (NCursesApplication_push S st) = S"
  by (simp add: NCursesApplication_top_def NCursesApplication_push_def)

lemma pop_times_Suc: "pop_times (Suc n) st = snd (NCursesApplication_pop (pop_times n st))"
  by (induction n arbitrary: st) simp_all

lemma pop_times_push_all: "pop_times (length Ss) (push_all Ss st) = st"
proof (induction Ss arbitrary: st)
  case Nil
  show ?case by simp
next
  case (Cons S Ss)
  have "pop_times (length (S # Ss)) (push_all (S # Ss) st)
      = snd (NCursesApplication_pop (pop_times (length Ss) (push_all Ss (NCursesApplication_push S st))))"
    by (simp only: length_Cons push_all.simps) (rule pop_times_Suc)
  also have "\<dots> = snd (NCursesApplication_pop (NCursesApplication_push S st))"
    by (simp only: Cons.IH)
  also have "\<dots> = st" by (simp add: pop_push)
  finally show ?case .
qed

text \<open>
  C4. The stack of key sets is last in, first out: after \<open>push(A)\<close>, \<open>push(B)\<close> and
  \<open>pop()\<close> the current set \<open>top()\<close> is \<open>A\<close>. \<open>push\<close> puts a node on top that holds the
  key set and, as its predecessor, the node that was on top before, and makes the key set
  the current one; \<open>pop\<close> on a stack with the topmost node \<open>L\<close> changes nothing but the top
  of the stack, which becomes the predecessor recorded in \<open>L\<close>; so \<open>pop\<close> after \<open>push\<close>
  gives back the state before the \<open>push\<close>.
\<close>

theorem slk_stack_lifo:
  "NCursesApplication_top (snd (NCursesApplication_pop
       (NCursesApplication_push B (NCursesApplication_push A st)))) = A
   \<and> slk_stack (NCursesApplication_push S st) = Some (SLK_Link (slk_stack st) S)
   \<and> NCursesApplication_top (NCursesApplication_push S st) = S
   \<and> (slk_stack st = Some L \<longrightarrow>
        snd (NCursesApplication_pop st) = st\<lparr>slk_stack := prev L\<rparr>)
   \<and> snd (NCursesApplication_pop (NCursesApplication_push S st)) = st"
proof (intro conjI impI)
  show "NCursesApplication_top (snd (NCursesApplication_pop
       (NCursesApplication_push B (NCursesApplication_push A st)))) = A"
    by (simp add: pop_push top_push)
  show "slk_stack (NCursesApplication_push S st) = Some (SLK_Link (slk_stack st) S)"
    by (simp add: NCursesApplication_push_def)
  show "NCursesApplication_top (NCursesApplication_push S st) = S"
    by (rule top_push)
  show "snd (NCursesApplication_pop st) = st\<lparr>slk_stack := prev L\<rparr>"
    if "slk_stack st = Some L"
    using that by (simp add: NCursesApplication_pop_def)
  show "snd (NCursesApplication_pop (NCursesApplication_push S st)) = st"
    by (simp add: pop_push)
qed

text \<open>On the key sets at the addresses 10 and 20, pushed in this order on the empty stack.\<close>

theorem slk_stack_lifo_witness:
  "NCursesApplication_top (snd (NCursesApplication_pop
       (NCursesApplication_push 20 (NCursesApplication_push 10 \<lparr>slk_stack = None\<rparr>)))) = 10
   \<and> snd (NCursesApplication_pop \<lparr>slk_stack = Some (SLK_Link (Some (SLK_Link None 10)) 20)\<rparr>)
       = \<lparr>slk_stack = Some (SLK_Link None 10)\<rparr>"
  using slk_stack_lifo [where A = 10 and B = 20 and st = "\<lparr>slk_stack = None\<rparr>"]
    slk_stack_lifo [where st = "\<lparr>slk_stack = Some (SLK_Link (Some (SLK_Link None 10)) 20)\<rparr>"
      and L = "SLK_Link (Some (SLK_Link None 10)) 20"]
  by simp

text \<open>
  C5. \<open>pop()\<close> on an empty stack returns false and leaves the state as it was, so there is
  still no current key set (\<open>top()\<close> is the null pointer); it ends in no other way. The
  stack is empty when nothing has been pushed, and again after every pushed key set has
  been popped.
\<close>

theorem pop_on_empty_stack:
  "slk_stack st = None \<longrightarrow>
     NCursesApplication_pop st = (False, st)
   \<and> NCursesApplication_top (snd (NCursesApplication_pop st)) = 0
   \<and> NCursesApplication_pop (pop_times (length Ss) (push_all Ss st)) = (False, st)"
proof (intro impI conjI)
  assume empty: "slk_stack st = None"
  then show refused: "NCursesApplication_pop st = (False, st)"
    by (simp add: NCursesApplication_pop_def)
  from empty show "NCursesApplication_top (snd (NCursesApplication_pop st)) = 0"
    by (simp add: refused NCursesApplication_top_def)
  show "NCursesApplication_pop (pop_times (length Ss) (push_all Ss st)) = (False, st)"
    by (simp only: pop_times_push_all refused)
qed

text \<open>On the empty stack, and on the stack after two key sets were pushed and popped.\<close>

theorem pop_on_empty_stack_witness:
  "NCursesApplication_pop \<lparr>slk_stack = None\<rparr> = (False, \<lparr>slk_stack = None\<rparr>)
   \<and> NCursesApplication_top (snd (NCursesApplication_pop \<lparr>slk_stack = None\<rparr>)) = 0
   \<and> NCursesApplication_pop
       (pop_times (length [10, 20 :: ptr]) (push_all [10, 20] \<lparr>slk_stack = None\<rparr>))
       = (False, \<lparr>slk_stack = None\<rparr>)"
  using pop_on_empty_stack [where st = "\<lparr>slk_stack = None\<rparr>" and Ss = "[10, 20]"]
  by (simp add: NCursesApplication_top_def)

subsection \<open>The layout of the soft label keys\<close>

lemma construct_keeps_layout:
  "0 < count st \<Longrightarrow>
     0 < count (construct labels_of c st)
   \<and> format (construct labels_of c st) = format st
   \<and> num_labels (construct labels_of c st) = num_labels st"
  by (cases c) (simp_all add: Soft_Label_Key_Set_with_layout_def Soft_Label_Key_Set_default_def)

lemma constructions_keep_layout:
  "0 < count st \<Longrightarrow>
     format (constructions labels_of cs st) = format st
   \<and> num_labels (constructions labels_of cs st) = num_labels st"
proof (induction cs arbitrary: st)
  case Nil
  show ?case by simp
next
  case (Cons c cs)
  from construct_keeps_layout [OF Cons.prems, of labels_of c]
  have pos: "0 < count (construct labels_of c st)"
    and same: "format (construct labels_of c st) = format st"
      "num_labels (construct labels_of c st) = num_labels st"
    by simp_all
  from Cons.IH [OF pos] same show ?case by simp
qed

text \<open>
  C6. The layout and the number of labels are static members fixed by the construction of
  the first-ever key set: when the first key set is constructed with the layout \<open>fmt\<close>,
  then after any sequence \<open>cs\<close> of later constructions, with a layout or by the default
  constructor, the layout is \<open>fmt\<close> and the number of labels is that of \<open>fmt\<close>; and
  whatever the first construction \<open>c\<close> was, no later construction changes the two.
\<close>

theorem slk_layout_fixed_by_first_set:
  "format (constructions labels_of cs (construct labels_of (With_layout fmt) no_key_sets)) = fmt
   \<and> num_labels (constructions labels_of cs (construct labels_of (With_layout fmt) no_key_sets))
       = labels_of fmt
   \<and> format (constructions labels_of cs (construct labels_of c no_key_sets))
       = format (construct labels_of c no_key_sets)
   \<and> num_labels (constructions labels_of cs (construct labels_of c no_key_sets))
       = num_labels (construct labels_of c no_key_sets)"
proof -
  have first: "0 < count (construct labels_of c' no_key_sets)" for c'
    by (cases c') (simp_all add: Soft_Label_Key_Set_with_layout_def Soft_Label_Key_Set_default_def
        no_key_sets_def)
  have "format (construct labels_of (With_layout fmt) no_key_sets) = fmt"
    and "num_labels (construct labels_of (With_layout fmt) no_key_sets) = labels_of fmt"
    by (simp_all add: Soft_Label_Key_Set_with_layout_def no_key_sets_def)
  with constructions_keep_layout [OF first, of labels_of cs "With_layout fmt"]
    constructions_keep_layout [OF first, of labels_of cs c]
  show ?thesis by simp
qed

text \<open>
  On a first key set with the layout \<^verbatim>\<open>Four_Four\<close> of eight labels, followed by a
  default construction and a construction that names another layout.
\<close>

theorem slk_layout_fixed_by_first_set_witness:
  "format (constructions (\<lambda>fmt. 8) [Default_layout, With_layout PC_Style]
       (construct (\<lambda>fmt. 8) (With_layout Four_Four) no_key_sets)) = Four_Four
   \<and> num_labels (constructions (\<lambda>fmt. 8) [Default_layout, With_layout PC_Style]
       (construct (\<lambda>fmt. 8) (With_layout Four_Four) no_key_sets)) = 8
   \<and> count (constructions (\<lambda>fmt. 8) [Default_layout, With_layout PC_Style]
       (construct (\<lambda>fmt. 8) (With_layout Four_Four) no_key_sets)) = 3"
  using slk_layout_fixed_by_first_set [where labels_of = "\<lambda>fmt. 8"
      and cs = "[Default_layout, With_layout PC_Style]" and fmt = Four_Four and c = Default_layout]
  by (simp add: Soft_Label_Key_Set_with_layout_def Soft_Label_Key_Set_default_def no_key_sets_def)

subsection \<open>The run loop\<close>





subsection \<open>Further properties of the headers\<close>

text \<open>
  X1. \<^verbatim>\<open>NCursesMenu::get_user\<close> and \<^verbatim>\<open>NCursesMenu::set_user\<close> assert the hook where
  the panel's two check it. In a build that does not define \<^verbatim>\<open>NDEBUG\<close>: when the
  user-data slot of the menu handle holds the null pointer, or a hook whose back-reference
  is not this wrapper or whose owner is not the menu handle, both end in the failed
  assertion. In every build, when the hook matches, \<open>get_user\<close> returns the stored user
  pointer and \<open>set_user\<close> changes the field \<open>m_user\<close> of that hook only.
\<close>

theorem menu_user_pointer_asserted:
  fixes w :: "'a NCursesMenu_scheme"
  shows
  "(\<not> NDEBUG \<and> (menu_userptr L (menu w) = 0 \<or> m_back (H (menu_userptr L (menu w))) \<noteq> this w
      \<or> m_owner (H (menu_userptr L (menu w))) \<noteq> menu w)
      \<longrightarrow> NCursesMenu_get_user NDEBUG L H w = Aborted
        \<and> NCursesMenu_set_user NDEBUG L H w user = Aborted)
   \<and> (menu_userptr L (menu w) \<noteq> 0 \<and> m_back (H (menu_userptr L (menu w))) = this w
      \<and> m_owner (H (menu_userptr L (menu w))) = menu w
      \<longrightarrow> NCursesMenu_get_user NDEBUG L H w = Returned (m_user (H (menu_userptr L (menu w))))
        \<and> NCursesMenu_set_user NDEBUG L H w user =
            Returned (H(menu_userptr L (menu w) := (H (menu_userptr L (menu w)))\<lparr>m_user := user\<rparr>)))"
proof -
  let ?hook = "menu_userptr L (menu w)"
  let ?matches = "?hook \<noteq> 0 \<and> m_back (H ?hook) = this w \<and> m_owner (H ?hook) = menu w"
  have get: "NCursesMenu_get_user NDEBUG L H w =
      (if NDEBUG \<or> ?matches
       then (if ?hook = 0 then Null_dereference else Returned (m_user (H ?hook)))
       else Aborted)"
    by (simp add: NCursesMenu_get_user_def Let_def and_then_assert dereference_def)
  have set: "NCursesMenu_set_user NDEBUG L H w user =
      (if NDEBUG \<or> ?matches
       then (if ?hook = 0 then Null_dereference
             else Returned (H(?hook := (H ?hook)\<lparr>m_user := user\<rparr>)))
       else Aborted)"
    by (simp add: NCursesMenu_set_user_def Let_def and_then_assert dereference_def)
  show ?thesis
    unfolding get set by auto
qed

theorem menu_user_pointer_asserted_witness:
  "NCursesMenu_get_user True example_menu_library example_hooks example_menu = Returned 9
   \<and> NCursesMenu_set_user False example_menu_library example_hooks example_menu 4
       = Returned (example_hooks(5 := \<lparr>m_user = 4, m_back = 1, m_owner = 7\<rparr>))
   \<and> NCursesMenu_get_user False example_menu_library example_hooks (example_menu\<lparr>this := 2\<rparr>)
       = Aborted
   \<and> NCursesMenu_set_user False example_menu_library example_hooks (example_menu\<lparr>menu := 8\<rparr>) 4
       = Aborted"
  using menu_user_pointer_asserted [where NDEBUG = True and L = example_menu_library
      and H = example_hooks and w = example_menu and user = 4]
    menu_user_pointer_asserted [where NDEBUG = False and L = example_menu_library
      and H = example_hooks and w = example_menu and user = 4]
    menu_user_pointer_asserted [where NDEBUG = False and L = example_menu_library
      and H = example_hooks and w = "example_menu\<lparr>this := 2\<rparr>" and user = 4]
    menu_user_pointer_asserted [where NDEBUG = False and L = example_menu_library
      and H = example_hooks and w = "example_menu\<lparr>menu := 8\<rparr>" and user = 4]
  by (simp add: example_menu_library_def example_hooks_def example_menu_def NCursesMenu_internal_def)

text \<open>
  X2. \<^verbatim>\<open>NCursesMenuItem::index()\<close> is the library's index of the item handle alone, so
  a collection in which two positions hold wrappers of one and the same handle is in index
  sync in no state of the library.
\<close>

theorem repeated_handle_breaks_index_sync:
  "i < N \<and> j < N \<and> i \<noteq> j \<and> item (ws (xs ! i)) = item (ws (xs ! j))
     \<longrightarrow> \<not> (\<forall>n<N. NCursesMenuItem_index L (ws (xs ! n)) = int n)"
proof (intro impI notI)
  assume a: "i < N \<and> j < N \<and> i \<noteq> j \<and> item (ws (xs ! i)) = item (ws (xs ! j))"
    and sync: "\<forall>n<N. NCursesMenuItem_index L (ws (xs ! n)) = int n"
  from a have i: "i < N" and j: "j < N" and same: "item (ws (xs ! i)) = item (ws (xs ! j))"
    by blast+
  from sync i have "NCursesMenuItem_index L (ws (xs ! i)) = int i" by blast
  moreover from sync j have "NCursesMenuItem_index L (ws (xs ! j)) = int j" by blast
  moreover from same have "NCursesMenuItem_index L (ws (xs ! i)) = NCursesMenuItem_index L (ws (xs ! j))"
    by (simp only: NCursesMenuItem_index_def)
  ultimately have "int i = int j" by (simp only:)
  then have "i = j" by (simp only: of_nat_eq_iff)
  with a show False by blast
qed

theorem repeated_handle_breaks_index_sync_witness:
  "\<not> (\<forall>n<2. NCursesMenuItem_index example_menu_library (example_items ([10, 10] ! n)) = int n)"
proof -
  have "(0::nat) < 2 \<and> (1::nat) < 2 \<and> (0::nat) \<noteq> 1
      \<and> item (example_items ([10, 10] ! 0)) = item (example_items ([10, 10] ! 1))"
    by simp
  with repeated_handle_breaks_index_sync [where N = 2 and L = example_menu_library
      and ws = example_items and xs = "[10, 10]" and i = 0 and j = 1]
  show ?thesis by blast
qed

text \<open>
  X3. \<^verbatim>\<open>OnError\<close> of a menu and of a form returns exactly when the code is
  \<^verbatim>\<open>E_OK\<close>: on any other code it does not return in any build, and in a build with
  g++ 7 or later it ends the process with \<^verbatim>\<open>exit(EXIT_FAILURE)\<close>.
\<close>

theorem OnError_never_returns:
  fixes w :: "'a NCursesMenu_scheme"
  shows
  "(err \<noteq> E_OK k \<longrightarrow>
      NCursesMenu_OnError b k w err \<noteq> Returned () \<and> NCursesForm_OnError b k err \<noteq> Returned ()
    \<and> NCursesMenu_OnError GNUG_from_7 k w err = Exited EXIT_FAILURE
    \<and> NCursesForm_OnError GNUG_from_7 k err = Exited EXIT_FAILURE)
   \<and> NCursesMenu_OnError b k w (E_OK k) = Returned ()
   \<and> NCursesForm_OnError b k (E_OK k) = Returned ()"
  by (cases b) (simp_all add: NCursesMenu_OnError_def NCursesForm_OnError_def)

theorem OnError_never_returns_witness:
  "NCursesMenu_OnError Other_compiler example_eti example_menu (- 2) = Exited EXIT_0
   \<and> NCursesForm_OnError GNUG_from_7 example_eti (- 2) = Exited EXIT_FAILURE
   \<and> NCursesMenu_OnError GNUG_from_7 example_eti example_menu 0 = Returned ()"
  using OnError_never_returns [where err = "- 2" and k = example_eti and b = Other_compiler
      and w = example_menu]
    OnError_never_returns [where err = "- 2" and k = example_eti and b = GNUG_from_7
      and w = example_menu]
  by (simp add: example_eti_def NCursesMenu_OnError_def NCursesMenuException_def)

text \<open>
  X4. On a panel whose hook matches, the user pointer \<^verbatim>\<open>set_user\<close> stores is the one
  \<^verbatim>\<open>get_user\<close> returns afterwards.
\<close>

theorem panel_user_pointer_round_trip:
  fixes w :: "'a NCursesPanel_scheme"
  shows
  "UserPointer L w \<noteq> 0 \<and> m_back (H (UserPointer L w)) = this w
     \<and> m_owner (H (UserPointer L w)) = p w
   \<longrightarrow> and_then (NCursesPanel_set_user L H w user) (\<lambda>H1. NCursesPanel_get_user L H1 w)
       = Returned user"
  by (auto simp add: NCursesPanel_get_user_def NCursesPanel_set_user_def Let_def)

theorem panel_user_pointer_round_trip_witness:
  "and_then (NCursesPanel_set_user example_panel_library example_hooks \<lparr>this = 1, p = 7\<rparr> 4)
     (\<lambda>H1. NCursesPanel_get_user example_panel_library H1 \<lparr>this = 1, p = 7\<rparr>) = Returned 4"
  using panel_user_pointer_round_trip [where L = example_panel_library and H = example_hooks
      and w = "\<lparr>this = 1, p = 7\<rparr>" and user = 4]
  by (simp add: UserPointer_def example_panel_library_def example_hooks_def)

text \<open>
  X5. The identity round trip of a menu: when the hook in the user-data slot of the menu
  handle matches the wrapper, \<^verbatim>\<open>getHook\<close> on the handle returns the address of the
  wrapper in every build, and still does after \<^verbatim>\<open>set_user\<close> has stored a user pointer.
\<close>

theorem menu_identity_round_trip:
  fixes w :: "'a NCursesMenu_scheme"
  shows
  "menu_userptr L (menu w) \<noteq> 0 \<and> m_back (H (menu_userptr L (menu w))) = this w
     \<and> m_owner (H (menu_userptr L (menu w))) = menu w
   \<longrightarrow> NCursesMenu_getHook NDEBUG L H (menu w) = Returned (this w)
     \<and> and_then (NCursesMenu_set_user NDEBUG L H w user)
         (\<lambda>H1. NCursesMenu_getHook NDEBUG L H1 (menu w)) = Returned (this w)"
  by (simp add: NCursesMenu_getHook_def NCursesMenu_set_user_def Let_def and_then_assert
      dereference_def)

theorem menu_identity_round_trip_witness:
  "NCursesMenu_getHook False example_menu_library example_hooks (menu example_menu) = Returned 1
   \<and> and_then (NCursesMenu_set_user True example_menu_library example_hooks example_menu 4)
         (\<lambda>H1. NCursesMenu_getHook True example_menu_library H1 (menu example_menu)) = Returned 1"
  using menu_identity_round_trip [where NDEBUG = False and L = example_menu_library
      and H = example_hooks and w = example_menu and user = 4]
    menu_identity_round_trip [where NDEBUG = True and L = example_menu_library
      and H = example_hooks and w = example_menu and user = 4]
  by (simp add: example_menu_library_def example_hooks_def example_menu_def NCursesMenu_internal_def)

end
